theory Spec2Isabelle
  imports Complex_Main "HOL-Library.Word" "HOL-Library.AList" "HOL-Library.Multiset"
begin

section \<open>Conventions of the embedding\<close>

text \<open>
  The Go sources are embedded shallowly.  A Go \<open>string\<close> is a byte sequence and becomes a
  HOL \<open>string\<close>; a Go \<open>int\<close> or \<open>int64\<close> that only counts or compares becomes \<open>int\<close>
  (no arithmetic of the program comes near the 64-bit range); \<open>uint64\<close> inodes are
  \<open>64 word\<close>.  A \<open>float64\<close> is idealised as a \<open>real\<close>: rounding, NaN and the
  infinities are outside the model.  A Go map that the program ranges over is an
  association list whose list order stands for the iteration order the runtime happens
  to choose; theorems about such loops quantify over every list, hence over every order.
\<close>

section \<open>String helpers of the Go standard library\<close>

text \<open>\<open>strings.HasPrefix\<close>, \<open>strings.Split\<close> with a one-byte separator, \<open>strings.Join\<close>.\<close>

definition HasPrefix :: "string \<Rightarrow> string \<Rightarrow> bool" where
  "HasPrefix s pre = (take (length pre) s = pre)"

fun Split :: "string \<Rightarrow> char \<Rightarrow> string list" where
  "Split [] sep = [[]]"
| "Split (c # cs) sep =
     (if c = sep then [] # Split cs sep
      else (case Split cs sep of [] \<Rightarrow> [[c]] | x # xs \<Rightarrow> (c # x) # xs))"

fun Join :: "string list \<Rightarrow> string \<Rightarrow> string" where
  "Join [] sep = []"
| "Join [x] sep = x"
| "Join (x # y # ys) sep = x @ sep @ Join (y # ys) sep"

text \<open>
  \<open>strconv.ParseInt(s, 10, 64)\<close>: an optional sign, then one or more decimal digits, and
  the value must fit an \<open>int64\<close>.  \<open>None\<close> is any returned error.
\<close>

fun parseDigits :: "string \<Rightarrow> nat \<Rightarrow> nat option" where
  "parseDigits [] acc = Some acc"
| "parseDigits (c # cs) acc =
     (let d = (of_char c :: nat) in
      if 48 \<le> d \<and> d \<le> 57 then parseDigits cs (acc * 10 + (d - 48)) else None)"

definition ParseInt :: "string \<Rightarrow> int option" where
  "ParseInt s =
     (case s of
        [] \<Rightarrow> None
      | c # cs \<Rightarrow>
          let neg = (c = CHR ''-'');
              body = (if c = CHR ''+'' \<or> c = CHR ''-'' then cs else s)
          in if body = [] then None
             else (case parseDigits body 0 of
                     None \<Rightarrow> None
                   | Some un \<Rightarrow>
                       if \<not> neg \<and> un \<ge> 2 ^ 63 then None
                       else if neg \<and> un > 2 ^ 63 then None
                       else Some (if neg then - int un else int un)))"

text \<open>
  Two library functions are parameters of the model: \<open>strconv.ParseFloat(s, 64)\<close>
  (\<open>None\<close> is an error) and \<open>url.Parse\<close> followed by the accessors the program reads
  (\<open>Scheme\<close>, \<open>Hostname()\<close>, \<open>Port()\<close>).
\<close>

record URL =
  Scheme :: string
  Hostname :: string
  URLPort :: string

record Lib =
  ParseFloat :: "string \<Rightarrow> real option"
  urlParse :: "string \<Rightarrow> URL option"

section \<open>Configuration (internal/config)\<close>

record GlobalConfig =
  TrackAllDomains :: bool
  MaxDomains :: int

record LogFormatConfig =
  Type :: string
  Fields :: "(string \<times> int) list"
  TimestampFormat :: string
  DurationUnit :: string

record MonitoredDomain =
  Host :: string
  Port :: string
  Labels :: "(string \<times> string) list"

text \<open>The compiled regular expression of a pattern is its matching predicate.\<close>

record DomainPattern =
  Pattern :: string
  PatternLabels :: "(string \<times> string) list"
  regex :: "string \<Rightarrow> bool"

record Config =
  Global :: GlobalConfig
  LogFormat :: LogFormatConfig
  MonitoredDomains :: "MonitoredDomain list"
  DomainPatterns :: "DomainPattern list"

text \<open>
  \<open>GetField\<close>: a configured index below the number of fields selects that field, any
  other field name or index gives the empty string.  A negative configured index passes
  the guard \<open>idx < len(flds)\<close> and the slice access panics: \<open>None\<close>.
\<close>

definition GetField :: "LogFormatConfig \<Rightarrow> string list \<Rightarrow> string \<Rightarrow> string option" where
  "GetField c flds fieldName =
     (case map_of (Fields c) fieldName of
        Some idx \<Rightarrow>
          if idx < int (length flds)
          then (if idx < 0 then None else Some (flds ! nat idx))
          else Some ''''
      | None \<Rightarrow> Some '''')"

definition IsMonitored :: "Config \<Rightarrow> string \<Rightarrow> string \<Rightarrow> MonitoredDomain option" where
  "IsMonitored c host port =
     (case find (\<lambda>d. Host d = host \<and> (Port d = '''' \<or> Port d = port)) (MonitoredDomains c) of
        Some d \<Rightarrow> Some d
      | None \<Rightarrow>
          (case find (\<lambda>pat. regex pat host) (DomainPatterns c) of
             Some pat \<Rightarrow> Some \<lparr>Host = host, Port = port, Labels = PatternLabels pat\<rparr>
           | None \<Rightarrow> None))"

section \<open>Line parser (internal/parser: \<open>parseLine\<close> and its helpers)\<close>

record DomainData =
  Requests :: int
  BytesIn :: int
  BytesOut :: int
  ResponsesByCode :: "(string \<times> (string \<times> int) list) list"
  ResponsesByCategory :: "(string \<times> int) list"
  Durations :: "real list"
  CacheHits :: int
  CacheMisses :: int

record Stats =
  Connections :: int
  RequestDurations :: "(string \<times> int) list"
  CacheStatuses :: "(string \<times> int) list"
  HTTPResponses :: "(string \<times> (string \<times> int) list) list"
  HTTPByCategory :: "(string \<times> int) list"
  DomainData :: "(string \<times> (string \<times> DomainData) list) list"

text \<open>The loop of \<open>splitPreservingQuotes\<close>, with its three local variables as arguments.\<close>

fun splitQuoted :: "string \<Rightarrow> string list \<Rightarrow> string \<Rightarrow> bool \<Rightarrow> string list" where
  "splitQuoted [] flds current inQuote =
     (if length current > 0 then flds @ [current] else flds)"
| "splitQuoted (c # s) flds current inQuote =
     (if c = CHR 0x22 then splitQuoted s flds current (\<not> inQuote)
      else if c = CHR '' '' \<and> \<not> inQuote then
        (if length current > 0 then splitQuoted s (flds @ [current]) [] inQuote
         else splitQuoted s flds current inQuote)
      else splitQuoted s flds (current @ [c]) inQuote)"

definition splitPreservingQuotes :: "string \<Rightarrow> string list" where
  "splitPreservingQuotes s = splitQuoted s [] [] False"

definition categorizeHTTPCode :: "string \<Rightarrow> string" where
  "categorizeHTTPCode code =
     (case code of
        [] \<Rightarrow> ''unknown''
      | c # _ \<Rightarrow>
          if c = CHR ''2'' then ''2xx''
          else if c = CHR ''3'' then ''3xx''
          else if c = CHR ''4'' then ''4xx''
          else if c = CHR ''5'' then ''5xx''
          else ''other'')"

definition getDurationBucket :: "real \<Rightarrow> string" where
  "getDurationBucket seconds =
     (if seconds < 1 / 10 then ''0.1''
      else if seconds < 5 / 10 then ''0.5''
      else if seconds < 1 then ''1''
      else if seconds < 5 then ''5''
      else if seconds < 10 then ''10''
      else ''10+'')"

text \<open>\<open>m[k]++\<close> on a Go map of counters.\<close>

definition incr :: "string \<Rightarrow> (string \<times> int) list \<Rightarrow> (string \<times> int) list" where
  "incr k m = map_default k 1 (\<lambda>v. v + 1) m"

text \<open>\<open>m[k1][k2]++\<close>, the inner map being created when it is missing.\<close>

definition incr2 ::
  "string \<Rightarrow> string \<Rightarrow> (string \<times> (string \<times> int) list) list
     \<Rightarrow> (string \<times> (string \<times> int) list) list" where
  "incr2 k1 k2 m = map_default k1 (incr k2 []) (incr k2) m"

definition newDomainData :: DomainData where
  "newDomainData =
     \<lparr>Requests = 0, BytesIn = 0, BytesOut = 0, ResponsesByCode = [],
      ResponsesByCategory = [], Durations = [], CacheHits = 0, CacheMisses = 0\<rparr>"

text \<open>The body of \<open>updateDomainStats\<close> once \<open>data\<close> points at the accumulator.\<close>

definition updateDomainData ::
  "int \<Rightarrow> string \<Rightarrow> string \<Rightarrow> real \<Rightarrow> string \<Rightarrow> DomainData \<Rightarrow> DomainData" where
  "updateDomainData bytes code cat duration status data =
     (let data1 = data\<lparr>Requests := Requests data + 1,
                       BytesOut := BytesOut data + bytes,
                       Durations := Durations data @ [duration],
                       ResponsesByCode := incr2 code cat (ResponsesByCode data),
                       ResponsesByCategory := incr cat (ResponsesByCategory data)\<rparr>
      in if HasPrefix status ''TCP_HIT'' \<or> HasPrefix status ''TCP_MEM_HIT''
         then data1\<lparr>CacheHits := CacheHits data1 + 1\<rparr>
         else if HasPrefix status ''TCP_MISS''
         then data1\<lparr>CacheMisses := CacheMisses data1 + 1\<rparr>
         else data1)"

definition updateDomainStats ::
  "Stats \<Rightarrow> string \<Rightarrow> string \<Rightarrow> int \<Rightarrow> string \<Rightarrow> string \<Rightarrow> real \<Rightarrow> string \<Rightarrow> Stats" where
  "updateDomainStats stats host port bytes code cat duration status =
     (let upd = updateDomainData bytes code cat duration status
      in stats\<lparr>DomainData :=
           map_default host
             (map_default port (upd newDomainData) upd [])
             (map_default port (upd newDomainData) upd)
             (DomainData stats)\<rparr>)"

text \<open>
  \<open>parseLine\<close> in three blocks.  First the fields of the line (lines 292 to 343 of the
  parser): the values the function holds in local variables before it touches \<open>stats\<close>.
\<close>

datatype lineError = InvalidLogLine | InvalidResultCode | IndexPanic

record Entry =
  cacheStatus :: string
  httpCode :: string
  category :: string
  durationSeconds :: real
  bytesInt :: int
  reqMethod :: string
  urlStr :: string

definition minFields :: "(string \<times> int) list \<Rightarrow> int" where
  "minFields fs = fold (\<lambda>(name, idx) m. if idx > m then idx else m) fs 0"

definition parseLine_fields :: "Lib \<Rightarrow> Config \<Rightarrow> string \<Rightarrow> lineError + Entry" where
  "parseLine_fields lib cfg line =
     (let flds = splitPreservingQuotes line;
          lf = LogFormat cfg
      in if int (length flds) \<le> minFields (Fields lf) then Inl InvalidLogLine
         else
           (case (GetField lf flds ''duration'', GetField lf flds ''result_code'',
                  GetField lf flds ''bytes'', GetField lf flds ''method'',
                  GetField lf flds ''url'') of
              (Some elapsed, Some resultCode, Some bytes, Some meth, Some url) \<Rightarrow>
                (case Split resultCode CHR ''/'' of
                   [cs, hc] \<Rightarrow>
                     let duration = (case ParseFloat lib elapsed of Some d \<Rightarrow> d | None \<Rightarrow> 0);
                         secs = (if DurationUnit lf = ''ms'' then duration / 1000 else duration);
                         b = (case ParseInt bytes of Some v \<Rightarrow> v | None \<Rightarrow> 0)
                     in Inr \<lparr>cacheStatus = cs, httpCode = hc, category = categorizeHTTPCode hc,
                             durationSeconds = secs, bytesInt = b, reqMethod = meth, urlStr = url\<rparr>
                 | _ \<Rightarrow> Inl InvalidResultCode)
            | _ \<Rightarrow> Inl IndexPanic))"

text \<open>Second, the update of the global statistics (lines 345 to 355).\<close>

definition parseLine_global :: "Entry \<Rightarrow> Stats \<Rightarrow> Stats" where
  "parseLine_global e stats =
     stats\<lparr>Connections := Connections stats + 1,
           RequestDurations := incr (getDurationBucket (durationSeconds e)) (RequestDurations stats),
           CacheStatuses := incr (cacheStatus e) (CacheStatuses stats),
           HTTPResponses := incr2 (httpCode e) (category e) (HTTPResponses stats),
           HTTPByCategory := incr (category e) (HTTPByCategory stats)\<rparr>"

text \<open>
  Third, host and port (lines 357 to 412).  \<open>None\<close> is every early \<open>return nil\<close>: the line
  gives no domain observation.
\<close>

definition splitHostPort :: "string \<Rightarrow> string \<Rightarrow> string \<times> string" where
  "splitHostPort url defaultPort =
     (case Split url CHR '':'' of
        [] \<Rightarrow> ('''', '''')
      | h # rest \<Rightarrow> (h, case rest of [] \<Rightarrow> defaultPort | p # _ \<Rightarrow> p))"

definition isInternalURL :: "string \<Rightarrow> bool" where
  "isInternalURL url =
     (HasPrefix url ''cache_object://'' \<or> HasPrefix url ''mgr://''
      \<or> HasPrefix url ''internal://'' \<or> HasPrefix url ''urn:'')"

definition invalidHost :: "string \<Rightarrow> bool" where
  "invalidHost host = (host = '''' \<or> host = ''-'' \<or> host = ''localhost'')"

definition parseLine_hostPort :: "Lib \<Rightarrow> string \<Rightarrow> string \<Rightarrow> (string \<times> string) option" where
  "parseLine_hostPort lib meth url =
     (if isInternalURL url then None
      else
        (case (if meth = ''CONNECT'' then Some (splitHostPort url ''443'')
               else if HasPrefix url ''http://'' \<or> HasPrefix url ''https://'' then
                 (case urlParse lib url of
                    None \<Rightarrow> None
                  | Some u \<Rightarrow>
                      Some (Hostname u,
                            if URLPort u = ''''
                            then (if Scheme u = ''https'' then ''443'' else ''80'')
                            else URLPort u))
               else Some (splitHostPort url ''80'')) of
           None \<Rightarrow> None
         | Some (host, port) \<Rightarrow>
             if invalidHost host then None else Some (host, port)))"

definition parseLine :: "Lib \<Rightarrow> Config \<Rightarrow> string \<Rightarrow> Stats \<Rightarrow> lineError + Stats" where
  "parseLine lib cfg line stats =
     (case parseLine_fields lib cfg line of
        Inl err \<Rightarrow> Inl err
      | Inr e \<Rightarrow>
          let stats1 = parseLine_global e stats
          in (case parseLine_hostPort lib (reqMethod e) (urlStr e) of
                None \<Rightarrow> Inr stats1
              | Some (host, port) \<Rightarrow>
                  Inr (updateDomainStats stats1 host port (bytesInt e) (httpCode e)
                         (category e) (durationSeconds e) (cacheStatus e))))"

section \<open>Percentile calculator (internal/parser: \<open>calculatePercentile\<close>)\<close>

text \<open>Go's conversion \<open>int(f)\<close> of a float truncates towards zero.\<close>

definition go_int :: "real \<Rightarrow> int" where
  "go_int x = (if 0 \<le> x then \<lfloor>x\<rfloor> else \<lceil>x\<rceil>)"

text \<open>
  \<open>calculatePercentile\<close> copies the slice, sorts the copy ascending and indexes it.  A
  negative index makes the Go runtime panic; that branch is \<open>None\<close>.
\<close>

definition calculatePercentile :: "real list \<Rightarrow> real \<Rightarrow> real option" where
  "calculatePercentile durations percentile =
     (if length durations = 0 then Some 0
      else
        let srt = sort durations;
            index = go_int (real (length srt) * percentile);
            index' = (if index \<ge> int (length srt) then int (length srt) - 1 else index)
        in if index' < 0 then None else Some (srt ! nat index'))"

section \<open>Counter-delta engine (internal/metrics)\<close>

text \<open>
  The Prometheus registry is a finite map from a metric and its label values to the
  current value.  A series exists once \<open>WithLabelValues\<close> has been called for it; the
  plain counter \<open>connectionsTotal\<close> is the series with no labels and exists from
  \<open>NewMetrics\<close> on.
\<close>

datatype CounterName =
    connectionsTotal
  | requestDurationTotal
  | cacheStatusTotal
  | httpResponsesTotal
  | allDomainsRequestsCounter
  | allDomainsHTTPResponsesCounter
  | allDomainsBytesCounter
  | monitoredDomainsRequestsCounter
  | monitoredDomainsHTTPResponsesCounter
  | monitoredDomainsBytesCounter

datatype GaugeName =
    monitoredDomainsAvgDuration
  | monitoredDomainsP50Duration
  | monitoredDomainsP90Duration
  | monitoredDomainsP95Duration
  | monitoredDomainsP99Duration
  | monitoredDomainsCacheHitRatio

record Metrics =
  counters :: "CounterName \<times> string list \<rightharpoonup> real"
  gauges :: "GaugeName \<times> string list \<rightharpoonup> real"
  customLabelKeys :: "string list"
  lastSeen :: "string \<rightharpoonup> real"

definition NewMetrics :: "string list \<Rightarrow> Metrics" where
  "NewMetrics keys =
     \<lparr>counters = [(connectionsTotal, []) \<mapsto> 0], gauges = Map.empty,
      customLabelKeys = keys, lastSeen = Map.empty\<rparr>"

text \<open>Reading a Go map of floats gives 0 for a missing key; a new series starts at 0.\<close>

definition valueOr0 :: "real option \<Rightarrow> real" where
  "valueOr0 v = (case v of None \<Rightarrow> 0 | Some x \<Rightarrow> x)"

text \<open>
  \<open>vec.WithLabelValues(labels...).Add(v)\<close>.  The library panics on a negative \<open>v\<close>; every
  call of the program is guarded by \<open>delta > 0\<close>.
\<close>

definition Add :: "CounterName \<Rightarrow> string list \<Rightarrow> real \<Rightarrow> Metrics \<Rightarrow> Metrics" where
  "Add c labels v m =
     m\<lparr>counters := (counters m)((c, labels) \<mapsto> valueOr0 (counters m (c, labels)) + v)\<rparr>"

definition Set :: "GaugeName \<Rightarrow> string list \<Rightarrow> real \<Rightarrow> Metrics \<Rightarrow> Metrics" where
  "Set g labels v m = m\<lparr>gauges := (gauges m)((g, labels) \<mapsto> v)\<rparr>"

definition makeKey :: "string list \<Rightarrow> string" where
  "makeKey labels = Join labels ''|''"

text \<open>
  Every setter of the package repeats one block: read \<open>lastSeen[key]\<close>, subtract, add the
  difference to the counter when it is positive, store the new value.  \<open>applyDelta\<close> is
  that block, with the key, the counter and its label values as arguments.
\<close>

definition applyDelta :: "string \<Rightarrow> CounterName \<Rightarrow> string list \<Rightarrow> real \<Rightarrow> Metrics \<Rightarrow> Metrics" where
  "applyDelta key c labels newValue m =
     (let lastValue = valueOr0 (lastSeen m key);
          delta = newValue - lastValue;
          m1 = (if delta > 0 then Add c labels delta m else m)
      in m1\<lparr>lastSeen := (lastSeen m1)(key \<mapsto> newValue)\<rparr>)"

definition SetConnections :: "int \<Rightarrow> Metrics \<Rightarrow> Metrics" where
  "SetConnections cnt m = applyDelta ''connections'' connectionsTotal [] (of_int cnt) m"

definition SetRequestDuration :: "string \<Rightarrow> int \<Rightarrow> Metrics \<Rightarrow> Metrics" where
  "SetRequestDuration interval cnt m =
     applyDelta (makeKey [''duration'', interval]) requestDurationTotal [interval]
       (of_int cnt) m"

definition SetCacheStatus :: "string \<Rightarrow> int \<Rightarrow> Metrics \<Rightarrow> Metrics" where
  "SetCacheStatus status cnt m =
     applyDelta (makeKey [''cache'', status]) cacheStatusTotal [status] (of_int cnt) m"

definition SetHTTPResponse :: "string \<Rightarrow> string \<Rightarrow> int \<Rightarrow> Metrics \<Rightarrow> Metrics" where
  "SetHTTPResponse code cat cnt m =
     applyDelta (makeKey [''http'', code, cat]) httpResponsesTotal [code, cat]
       (of_int cnt) m"

definition UpdateAllDomains ::
  "string \<Rightarrow> string \<Rightarrow> real \<Rightarrow> real \<Rightarrow> real \<Rightarrow> (string \<times> int) list \<Rightarrow> Metrics \<Rightarrow> Metrics" where
  "UpdateAllDomains host port requests bytesIn bytesOut responsesByCategory m =
     (let m1 = applyDelta (makeKey [''all_req'', host, port])
                 allDomainsRequestsCounter [host, port] requests m;
          m2 = applyDelta (makeKey [''all_bytes_in'', host, port])
                 allDomainsBytesCounter [host, port, ''in''] bytesIn m1;
          m3 = applyDelta (makeKey [''all_bytes_out'', host, port])
                 allDomainsBytesCounter [host, port, ''out''] bytesOut m2
      in fold (\<lambda>(cat, cnt).
                 applyDelta (makeKey [''all_http_cat'', host, port, cat])
                   allDomainsHTTPResponsesCounter [host, port, cat] (of_int cnt))
           responsesByCategory m3)"

text \<open>The values of the custom label keys, a missing label being the empty string.\<close>

definition customValues :: "Metrics \<Rightarrow> (string \<times> string) list \<Rightarrow> string list" where
  "customValues m customLabels =
     map (\<lambda>key. case map_of customLabels key of None \<Rightarrow> '''' | Some v \<Rightarrow> v) (customLabelKeys m)"

definition buildLabelValues :: "Metrics \<Rightarrow> string \<Rightarrow> string \<Rightarrow> (string \<times> string) list \<Rightarrow> string list" where
  "buildLabelValues m host port customLabels = [host, port] @ customValues m customLabels"

definition UpdateMonitoredDomain ::
  "string \<Rightarrow> string \<Rightarrow> (string \<times> string) list \<Rightarrow> real \<Rightarrow> real \<Rightarrow> real
     \<Rightarrow> (string \<times> (string \<times> int) list) list \<Rightarrow> real \<Rightarrow> real \<Rightarrow> real \<Rightarrow> real \<Rightarrow> real
     \<Rightarrow> int \<Rightarrow> int \<Rightarrow> Metrics \<Rightarrow> Metrics" where
  "UpdateMonitoredDomain host port customLabels requests bytesIn bytesOut responsesByCode
       avgDuration p50Duration p90Duration p95Duration p99Duration hits misses m =
     (let baseLabels = buildLabelValues m host port customLabels;
          cv = customValues m customLabels;
          m1 = applyDelta (makeKey [''mon_req'', host, port])
                 monitoredDomainsRequestsCounter baseLabels requests m;
          m2 = applyDelta (makeKey [''mon_bytes_in'', host, port])
                 monitoredDomainsBytesCounter ([host, port, ''in''] @ cv) bytesIn m1;
          m3 = applyDelta (makeKey [''mon_bytes_out'', host, port])
                 monitoredDomainsBytesCounter ([host, port, ''out''] @ cv) bytesOut m2;
          m4 = fold (\<lambda>(code, categories).
                       fold (\<lambda>(cat, cnt).
                               applyDelta (makeKey [''mon_http'', host, port, code, cat])
                                 monitoredDomainsHTTPResponsesCounter
                                 ([host, port, code, cat] @ cv) (of_int cnt))
                         categories)
                 responsesByCode m3;
          m5 = Set monitoredDomainsAvgDuration baseLabels avgDuration m4;
          m6 = Set monitoredDomainsP50Duration baseLabels p50Duration m5;
          m7 = Set monitoredDomainsP90Duration baseLabels p90Duration m6;
          m8 = Set monitoredDomainsP95Duration baseLabels p95Duration m7;
          m9 = Set monitoredDomainsP99Duration baseLabels p99Duration m8;
          totalCache = hits + misses
      in if totalCache > 0
         then Set monitoredDomainsCacheHitRatio baseLabels
                (of_int hits / of_int totalCache) m9
         else m9)"

section \<open>Run aggregator (internal/parser: \<open>updateMetrics\<close>)\<close>

record Position =
  Filename :: string
  Position :: int
  Inode :: "64 word"

text \<open>
  The position file as it is on disk.  \<open>Malformed\<close> is content that \<open>json.Unmarshal\<close>
  rejects before it stores anything.  The time stamp of a position is left out.
\<close>

datatype PositionFile = NotExist | Unreadable | Malformed | Stored Position

text \<open>
  What survives from one run to the next: the metrics, the seen-set, the position the
  tracker holds in memory, and the position file.  The seen-set is a Go map whose values
  are all \<open>true\<close>; it is the list of its keys.
\<close>

record Parser =
  metrics :: Metrics
  allDomainsSeen :: "string list"
  trackerPosition :: Position
  positionFile :: PositionFile

record Other =
  otherRequests :: real
  otherBytesIn :: real
  otherBytesOut :: real
  otherResponsesByCategory :: "(string \<times> int) list"

definition noOther :: Other where
  "noOther = \<lparr>otherRequests = 0, otherBytesIn = 0, otherBytesOut = 0,
              otherResponsesByCategory = []\<rparr>"

definition addOther :: "DomainData \<Rightarrow> Other \<Rightarrow> Other" where
  "addOther data oth =
     \<lparr>otherRequests = otherRequests oth + of_int (Requests data),
      otherBytesIn = otherBytesIn oth + of_int (BytesIn data),
      otherBytesOut = otherBytesOut oth + of_int (BytesOut data),
      otherResponsesByCategory =
        fold (\<lambda>(cat, cnt). map_default cat cnt (\<lambda>v. v + cnt))
          (ResponsesByCategory data) (otherResponsesByCategory oth)\<rparr>"

definition avgDurationOf :: "real list \<Rightarrow> real" where
  "avgDurationOf ds = (if length ds > 0 then sum_list ds / of_nat (length ds) else 0)"

text \<open>
  The four percentile calls pass non-negative constants, for which
  \<open>calculatePercentile\<close> never panics (lemma \<open>calculatePercentile_total\<close>).
\<close>

definition percentileOf :: "real list \<Rightarrow> real \<Rightarrow> real" where
  "percentileOf ds p = (case calculatePercentile ds p of Some v \<Rightarrow> v | None \<Rightarrow> 0)"

definition updateAllDomainsOf :: "string \<Rightarrow> string \<Rightarrow> DomainData \<Rightarrow> Metrics \<Rightarrow> Metrics" where
  "updateAllDomainsOf host port data m =
     UpdateAllDomains host port (of_int (Requests data)) (of_int (BytesIn data))
       (of_int (BytesOut data)) (ResponsesByCategory data) m"

text \<open>The body of the loop over \<open>stats.DomainData\<close>, for one host, port and accumulator.\<close>

definition domainStep ::
  "Config \<Rightarrow> string \<times> string \<times> DomainData \<Rightarrow> Other \<times> Parser \<Rightarrow> Other \<times> Parser" where
  "domainStep cfg e s =
     (case e of (host, port, data) \<Rightarrow>
      case s of (oth, p) \<Rightarrow>
        let domainKey = host @ '':'' @ port;
            s1 =
              (if TrackAllDomains (Global cfg) then
                 (if domainKey \<in> set (allDomainsSeen p) then
                    (oth, p\<lparr>metrics := updateAllDomainsOf host port data (metrics p)\<rparr>)
                  else if int (length (allDomainsSeen p)) < MaxDomains (Global cfg) then
                    (oth, p\<lparr>allDomainsSeen := allDomainsSeen p @ [domainKey],
                            metrics := updateAllDomainsOf host port data (metrics p)\<rparr>)
                  else (addOther data oth, p))
               else (oth, p))
        in (case IsMonitored cfg host port of
              None \<Rightarrow> s1
            | Some md \<Rightarrow>
                (fst s1,
                 (snd s1)\<lparr>metrics :=
                   UpdateMonitoredDomain host port (Labels md)
                     (of_int (Requests data)) (of_int (BytesIn data)) (of_int (BytesOut data))
                     (ResponsesByCode data)
                     (avgDurationOf (Durations data))
                     (percentileOf (Durations data) (50 / 100))
                     (percentileOf (Durations data) (90 / 100))
                     (percentileOf (Durations data) (95 / 100))
                     (percentileOf (Durations data) (99 / 100))
                     (CacheHits data) (CacheMisses data)
                     (metrics (snd s1))\<rparr>)))"

text \<open>The nested map \<open>host -> port -> data\<close> in the order the two loops visit it.\<close>

definition domainEntries ::
  "(string \<times> (string \<times> DomainData) list) list \<Rightarrow> (string \<times> string \<times> DomainData) list" where
  "domainEntries dd = concat (map (\<lambda>(host, ports). map (\<lambda>(port, data). (host, port, data)) ports) dd)"

definition globalMetrics :: "Stats \<Rightarrow> Metrics \<Rightarrow> Metrics" where
  "globalMetrics stats m =
     (let m1 = SetConnections (Connections stats) m;
          m2 = fold (\<lambda>(interval, cnt). SetRequestDuration interval cnt)
                 (RequestDurations stats) m1;
          m3 = fold (\<lambda>(status, cnt). SetCacheStatus status cnt) (CacheStatuses stats) m2
      in fold (\<lambda>(code, categories).
                 fold (\<lambda>(cat, cnt). SetHTTPResponse code cat cnt) categories)
           (HTTPResponses stats) m3)"

definition updateMetrics :: "Config \<Rightarrow> Stats \<Rightarrow> Parser \<Rightarrow> Parser" where
  "updateMetrics cfg stats p =
     (let p1 = p\<lparr>metrics := globalMetrics stats (metrics p)\<rparr>;
          (oth, p2) = fold (domainStep cfg) (domainEntries (DomainData stats)) (noOther, p1)
      in if TrackAllDomains (Global cfg) \<and> otherRequests oth > 0
         then p2\<lparr>metrics :=
                UpdateAllDomains ''__other__'' ''0'' (otherRequests oth) (otherBytesIn oth)
                  (otherBytesOut oth) (otherResponsesByCategory oth) (metrics p2)\<rparr>
         else p2)"


section \<open>Position tracker and \<open>Parse\<close> (internal/position, internal/parser)\<close>

text \<open>
  What one run finds outside the process.  \<open>logFile\<close> is the result of \<open>os.Open\<close> on the
  log path (\<open>None\<close> is an error): the inode and the bytes of the file.  \<open>statOk\<close> says
  whether reading the inode by path succeeds, \<open>fstatOk\<close> whether \<open>file.Stat()\<close> does,
  \<open>seekOk\<close> whether the file can seek (a regular file can), \<open>saveOk\<close> whether the
  position file can be replaced.  \<open>readOffset n\<close> is the offset of the operating-system
  file after \<open>n\<close> lines have been parsed: the buffered scanner has read ahead by an
  amount the program does not control.
\<close>

record LogFile =
  FileInode :: "64 word"
  Content :: string

record Env =
  logFile :: "LogFile option"
  statOk :: bool
  fstatOk :: bool
  seekOk :: bool
  saveOk :: bool
  readOffset :: "int \<Rightarrow> int"

datatype ParseError = OpenError | InodeError | ScannerError | Panic

text \<open>\<open>Tracker.Load\<close>: the flag is the returned error, which \<open>Parse\<close> only logs.\<close>

definition Load :: "Parser \<Rightarrow> bool \<times> Parser" where
  "Load p =
     (case positionFile p of
        NotExist \<Rightarrow> (False, p)
      | Unreadable \<Rightarrow> (True, p)
      | Malformed \<Rightarrow> (True, p)
      | Stored pos \<Rightarrow> (False, p\<lparr>trackerPosition := pos\<rparr>))"

text \<open>
  \<open>Tracker.Save\<close>: the position in memory is set first; the file is written to a
  temporary name and renamed, so a failure leaves the old file.
\<close>

definition Save :: "Env \<Rightarrow> string \<Rightarrow> int \<Rightarrow> 64 word \<Rightarrow> Parser \<Rightarrow> Parser" where
  "Save env filename pos ino p =
     (let position = \<lparr>Filename = filename, Position = pos, Inode = ino\<rparr>
      in p\<lparr>trackerPosition := position,
           positionFile := (if saveOk env then Stored position else positionFile p)\<rparr>)"

text \<open>
  \<open>bufio.Scanner\<close> with \<open>ScanLines\<close> and a buffer of \<open>maxScanTokenSize\<close> bytes: the lines
  between newlines with one trailing carriage return dropped, a last line without
  newline included when it is not empty.  A line that does not fit the buffer stops the
  scanner with an error after the lines before it have been delivered.
\<close>

definition maxScanTokenSize :: nat where
  "maxScanTokenSize = 1024 * 1024"

definition dropCR :: "string \<Rightarrow> string" where
  "dropCR s = (if s \<noteq> [] \<and> last s = CHR 0x0D then butlast s else s)"

fun scanTokens :: "string list \<Rightarrow> string list \<times> bool" where
  "scanTokens [] = ([], False)"
| "scanTokens [l] =
     (if length l \<ge> maxScanTokenSize then ([], True)
      else if l = [] then ([], False)
      else ([dropCR l], False))"
| "scanTokens (l # ls) =
     (if length l \<ge> maxScanTokenSize then ([], True)
      else (case scanTokens ls of (ts, err) \<Rightarrow> (dropCR l # ts, err)))"

definition scanLines :: "string \<Rightarrow> string list \<times> bool" where
  "scanLines data = scanTokens (Split data (CHR 0x0A))"

definition newStats :: Stats where
  "newStats =
     \<lparr>Connections = 0, RequestDurations = [], CacheStatuses = [], HTTPResponses = [],
      HTTPByCategory = [], DomainData = []\<rparr>"

text \<open>
  The scanning loop of \<open>Parse\<close>: a line that fails to parse is logged and skipped, every
  thousandth parsed line saves the position the file reports.  \<open>None\<close> is a panic.
\<close>

definition currentPos :: "Env \<Rightarrow> int \<Rightarrow> int" where
  "currentPos env lineCount = (if seekOk env then readOffset env lineCount else 0)"

fun scanLoop ::
  "Lib \<Rightarrow> Config \<Rightarrow> string \<Rightarrow> Env \<Rightarrow> 64 word \<Rightarrow> string list
     \<Rightarrow> int \<times> Stats \<times> Parser \<Rightarrow> (int \<times> Stats \<times> Parser) option" where
  "scanLoop lib cfg path env ino [] s = Some s"
| "scanLoop lib cfg path env ino (line # rest) (lineCount, stats, p) =
     (case parseLine lib cfg line stats of
        Inl IndexPanic \<Rightarrow> None
      | Inl InvalidLogLine \<Rightarrow> scanLoop lib cfg path env ino rest (lineCount, stats, p)
      | Inl InvalidResultCode \<Rightarrow> scanLoop lib cfg path env ino rest (lineCount, stats, p)
      | Inr stats' \<Rightarrow>
          scanLoop lib cfg path env ino rest
            (lineCount + 1, stats',
             if (lineCount + 1) mod 1000 = 0
             then Save env path (currentPos env (lineCount + 1)) ino p
             else p))"

text \<open>The block of \<open>Parse\<close> under "Check for log rotation".\<close>

definition rotationCheck :: "64 word \<Rightarrow> int \<Rightarrow> 64 word \<Rightarrow> int" where
  "rotationCheck currentInode lastPos lastInode =
     (if currentInode \<noteq> lastInode \<and> lastInode \<noteq> 0 then 0 else lastPos)"

text \<open>
  The block under "Seek to last position": the offset of the file at which the scanner
  starts to read.  A failed seek falls back to the beginning.
\<close>

definition seekStart :: "Env \<Rightarrow> int \<Rightarrow> int" where
  "seekStart env lastPos = (if lastPos > 0 then (if seekOk env then lastPos else 0) else 0)"

text \<open>
  The offset at which one run of \<open>Parse\<close> starts to scan the log file, when it gets
  that far.
\<close>

definition Parse_start :: "Env \<Rightarrow> Parser \<Rightarrow> ParseError + int" where
  "Parse_start env p0 =
     (let p = snd (Load p0)
      in case logFile env of
           None \<Rightarrow> Inl OpenError
         | Some f \<Rightarrow>
             if \<not> statOk env then Inl InodeError
             else Inr (seekStart env
                         (rotationCheck (FileInode f) (Position (trackerPosition p))
                            (Inode (trackerPosition p)))))"

text \<open>
  The offset the file reports once the scanner has read to its end: the end of the file,
  or the start offset when that lies beyond the end.
\<close>

definition finalPos :: "Env \<Rightarrow> LogFile \<Rightarrow> int \<Rightarrow> int" where
  "finalPos env f start = (if seekOk env then max start (int (length (Content f))) else 0)"

definition Parse :: "Lib \<Rightarrow> Config \<Rightarrow> string \<Rightarrow> Env \<Rightarrow> Parser \<Rightarrow> ParseError option \<times> Parser" where
  "Parse lib cfg path env p0 =
     (let p = snd (Load p0)
      in case logFile env of
           None \<Rightarrow> (Some OpenError, p)
         | Some f \<Rightarrow>
             if \<not> statOk env then (Some InodeError, p)
             else
               let currentInode = FileInode f;
                   lastPos = rotationCheck currentInode (Position (trackerPosition p))
                               (Inode (trackerPosition p));
                   start = seekStart env lastPos
               in (case scanLines (drop (nat start) (Content f)) of
                     (lines, scanErr) \<Rightarrow>
                       (case scanLoop lib cfg path env currentInode lines (0, newStats, p) of
                          None \<Rightarrow> (Some Panic, p)
                        | Some (lineCount, stats, p1) \<Rightarrow>
                            if scanErr then (Some ScannerError, p1)
                            else (None,
                                  Save env path (finalPos env f start) currentInode
                                    (updateMetrics cfg stats p1)))))"

section \<open>The earlier collector (squid\_log\_exporter.go: \<open>parseNewEntries\<close>)\<close>

text \<open>
  The head of \<open>MetricsCollector.parseNewEntries\<close>, up to the creation of the scanner:
  the offset of the log file at which it starts to scan, or the error it returns.
\<close>

datatype CollectorError = FileAccessError | GetInodeError | FileInfoError | SeekError

definition parseNewEntries_start :: "Env \<Rightarrow> int \<Rightarrow> 64 word \<Rightarrow> CollectorError + int" where
  "parseNewEntries_start env lastPosition lastInode =
     (case logFile env of
        None \<Rightarrow> Inl FileAccessError
      | Some f \<Rightarrow>
          if \<not> statOk env then Inl GetInodeError
          else if \<not> fstatOk env then Inl FileInfoError
          else
            let currentInode = FileInode f;
                fileSize = int (length (Content f));
                lastPosition1 =
                  (if lastInode \<noteq> currentInode then 0
                   else if lastPosition > fileSize then 0
                   else lastPosition)
            in if lastPosition1 > 0
               then (if seekOk env then Inr lastPosition1 else Inl SeekError)
               else Inr 0)"

section \<open>Configuration presets and example inputs\<close>

text \<open>The preset \<open>squid_native\<close> of \<open>logFormatPresets\<close> and \<open>getDefaultConfig\<close> of \<open>main\<close>.\<close>

definition squid_native :: LogFormatConfig where
  "squid_native =
     \<lparr>Type = ''squid_native'',
      Fields = [(''timestamp'', 0), (''duration'', 1), (''client_ip'', 2),
                (''result_code'', 3), (''bytes'', 4), (''method'', 5), (''url'', 6),
                (''rfc931'', 7), (''hierarchy'', 8), (''content_type'', 9)],
      TimestampFormat = ''unix'', DurationUnit = ''ms''\<rparr>"

definition getDefaultConfig :: Config where
  "getDefaultConfig =
     \<lparr>Global = \<lparr>TrackAllDomains = True, MaxDomains = 10000\<rparr>, LogFormat = squid_native,
      MonitoredDomains = [], DomainPatterns = []\<rparr>"

text \<open>\<open>NewParser\<close>, for the metrics it is given and a position file as found on disk.\<close>

definition NewParser :: "Metrics \<Rightarrow> PositionFile \<Rightarrow> Parser" where
  "NewParser m pf =
     \<lparr>metrics = m, allDomainsSeen = [],
      trackerPosition = \<lparr>Filename = '''', Position = 0, Inode = 0\<rparr>, positionFile = pf\<rparr>"

text \<open>
  Inputs for the concrete evaluations below: the two library functions on the strings
  that occur, one log line of the native format, and an environment in which every
  operation on files succeeds.
\<close>

definition exampleLib :: Lib where
  "exampleLib =
     \<lparr>ParseFloat = (\<lambda>s. if s = ''150'' then Some 150 else None),
      urlParse = (\<lambda>s. if s = ''http://example.com/''
                       then Some \<lparr>Scheme = ''http'', Hostname = ''example.com'', URLPort = ''''\<rparr>
                       else None)\<rparr>"

definition exampleLine :: string where
  "exampleLine =
     ''1700000000.000 150 10.0.0.1 TCP_MISS/200 1024 GET http://example.com/ - HIER_DIRECT/1.2.3.4 text/html''"

definition exampleEnv :: "LogFile \<Rightarrow> Env" where
  "exampleEnv f =
     \<lparr>logFile = Some f, statOk = True, fstatOk = True, seekOk = True, saveOk = True,
      readOffset = (\<lambda>n. 0)\<rparr>"

definition exampleData :: DomainData where
  "exampleData =
     \<lparr>Requests = 1, BytesIn = 0, BytesOut = 1024,
      ResponsesByCode = [(''200'', [(''2xx'', 1)])], ResponsesByCategory = [(''2xx'', 1)],
      Durations = [3 / 20], CacheHits = 0, CacheMisses = 1\<rparr>"

definition exampleStats :: Stats where
  "exampleStats =
     \<lparr>Connections = 1, RequestDurations = [(''0.5'', 1)], CacheStatuses = [(''TCP_MISS'', 1)],
      HTTPResponses = [(''200'', [(''2xx'', 1)])], HTTPByCategory = [(''2xx'', 1)],
      DomainData = [(''example.com'', [(''80'', exampleData)])]\<rparr>"

text \<open>
  Further lines of the native format: one with three tokens only, one whose result code
  has no \<open>/\<close>, one whose duration and bytes fields are \<open>-\<close>, and one for a URL of the
  cache manager.
\<close>

definition shortLine :: string where
  "shortLine = ''1700000000.000 150 10.0.0.1''"

definition badCodeLine :: string where
  "badCodeLine =
     ''1700000000.000 150 10.0.0.1 TCP_MISS 1024 GET http://example.com/ - HIER_DIRECT/1.2.3.4 text/html''"

definition degradedLine :: string where
  "degradedLine =
     ''1700000000.000 - 10.0.0.1 TCP_MISS/200 - GET http://example.com/ - HIER_DIRECT/1.2.3.4 text/html''"


section \<open>Predicates used in the statements\<close>

text \<open>Cache hits and misses of an accumulator are counted among its requests.\<close>

definition cacheInv :: "DomainData \<Rightarrow> bool" where
  "cacheInv d =
     (0 \<le> CacheHits d \<and> 0 \<le> CacheMisses d \<and> CacheHits d + CacheMisses d \<le> Requests d)"

definition statsInv :: "Stats \<Rightarrow> bool" where
  "statsInv s = list_all (\<lambda>hp. list_all (\<lambda>pd. cacheInv (snd pd)) (snd hp)) (DomainData s)"

text \<open>\<open>stats.DomainData[host][port]\<close>, when it exists.\<close>

definition lookupDomain :: "Stats \<Rightarrow> string \<Rightarrow> string \<Rightarrow> DomainData option" where
  "lookupDomain s host port =
     (case map_of (DomainData s) host of None \<Rightarrow> None | Some ps \<Rightarrow> map_of ps port)"

section \<open>Properties of the counter-delta engine\<close>




lemma applyDelta_gauges [simp]: "gauges (applyDelta key c labels v m) = gauges m"
  by (simp add: applyDelta_def Add_def Let_def)

lemma applyDelta_keys [simp]:
  "customLabelKeys (applyDelta key c labels v m) = customLabelKeys m"
  by (simp add: applyDelta_def Add_def Let_def)















section \<open>Properties of the line parser\<close>


lemma map_default_pres:
  assumes "list_all (\<lambda>x. P (snd x)) xs" "P v" "\<And>y. P y \<Longrightarrow> P (f y)"
  shows "list_all (\<lambda>x. P (snd x)) (map_default k v f xs)"
  using assms by (induction xs) auto

lemma updateDomainData_effect:
  "Requests (updateDomainData b code cat dur status d) = Requests d + 1
   \<and> CacheHits (updateDomainData b code cat dur status d) =
       CacheHits d + (if HasPrefix status ''TCP_HIT'' \<or> HasPrefix status ''TCP_MEM_HIT'' then 1 else 0)
   \<and> CacheMisses (updateDomainData b code cat dur status d) =
       CacheMisses d + (if \<not> (HasPrefix status ''TCP_HIT'' \<or> HasPrefix status ''TCP_MEM_HIT'')
                          \<and> HasPrefix status ''TCP_MISS'' then 1 else 0)"
  by (simp add: updateDomainData_def Let_def)

lemma cacheInv_update: "cacheInv d \<Longrightarrow> cacheInv (updateDomainData b code cat dur status d)"
  unfolding cacheInv_def using updateDomainData_effect [of b code cat dur status d]
  by (auto split: if_splits)

lemma cacheInv_new: "cacheInv newDomainData"
  by (simp add: cacheInv_def newDomainData_def)

lemma statsInv_updateDomainStats:
  assumes "statsInv s"
  shows "statsInv (updateDomainStats s host port b code cat dur status)"
proof -
  let ?upd = "updateDomainData b code cat dur status"
  let ?P = "\<lambda>ps. list_all (\<lambda>pd. cacheInv (snd pd)) ps"
  have new: "?P (map_default port (?upd newDomainData) ?upd [])"
    by (simp add: cacheInv_update cacheInv_new)
  have step: "\<And>ps. ?P ps \<Longrightarrow> ?P (map_default port (?upd newDomainData) ?upd ps)"
    by (rule map_default_pres) (simp_all add: cacheInv_update cacheInv_new)
  have "list_all (\<lambda>hp. ?P (snd hp))
          (map_default host (map_default port (?upd newDomainData) ?upd [])
             (map_default port (?upd newDomainData) ?upd) (DomainData s))"
    using assms unfolding statsInv_def
    by (intro map_default_pres [where P = ?P] new step)
  then show ?thesis
    unfolding statsInv_def updateDomainStats_def Let_def by simp
qed

lemma statsInv_parseLine:
  assumes "statsInv s" "parseLine lib cfg line s = Inr s'"
  shows "statsInv s'"
proof -
  have g: "\<And>e. statsInv (parseLine_global e s)"
    using assms(1) by (simp add: statsInv_def parseLine_global_def)
  show ?thesis
    using assms(2) g
    by (auto simp: parseLine_def Let_def statsInv_updateDomainStats split: sum.splits option.splits)
qed

lemma statsInv_scanLoop:
  assumes "statsInv stats" "scanLoop lib cfg path env ino lines (n, stats, p) = Some (n', stats', p')"
  shows "statsInv stats'"
  using assms
proof (induction lines arbitrary: n stats p)
  case Nil
  then show ?case by simp
next
  case (Cons line rest)
  show ?case
  proof (cases "parseLine lib cfg line stats")
    case (Inl err)
    with Cons.prems(2) have "scanLoop lib cfg path env ino rest (n, stats, p) = Some (n', stats', p')"
      by (cases err) simp_all
    from Cons.IH [OF Cons.prems(1) this] show ?thesis .
  next
    case (Inr s1)
    then have inv: "statsInv s1" using Cons.prems(1) statsInv_parseLine by blast
    from Inr Cons.prems(2) obtain p1 where
      "scanLoop lib cfg path env ino rest (n + 1, s1, p1) = Some (n', stats', p')"
      by simp
    from Cons.IH [OF inv this] show ?thesis .
  qed
qed

lemma statsInv_newStats: "statsInv newStats"
  by (simp add: statsInv_def newStats_def)

lemma lookup_updateDomainStats:
  "lookupDomain (updateDomainStats s host port b code cat dur status) host port =
     Some (updateDomainData b code cat dur status
             (case lookupDomain s host port of None \<Rightarrow> newDomainData | Some d \<Rightarrow> d))"
  by (simp add: lookupDomain_def updateDomainStats_def Let_def map_of_map_default
        split: option.splits)


lemma example_split:
  "splitPreservingQuotes exampleLine =
     [''1700000000.000'', ''150'', ''10.0.0.1'', ''TCP_MISS/200'', ''1024'', ''GET'',
      ''http://example.com/'', ''-'', ''HIER_DIRECT/1.2.3.4'', ''text/html'']"
  by (simp add: splitPreservingQuotes_def exampleLine_def)

lemma example_fields:
  "parseLine_fields exampleLib getDefaultConfig exampleLine =
     Inr \<lparr>cacheStatus = ''TCP_MISS'', httpCode = ''200'', category = ''2xx'',
          durationSeconds = 3 / 20, bytesInt = 1024, reqMethod = ''GET'',
          urlStr = ''http://example.com/''\<rparr>"
  by (simp add: parseLine_fields_def example_split getDefaultConfig_def squid_native_def
        minFields_def GetField_def exampleLib_def ParseInt_def categorizeHTTPCode_def Let_def)

lemma example_hostPort:
  "parseLine_hostPort exampleLib ''GET'' ''http://example.com/'' = Some (''example.com'', ''80'')"
  by (simp add: parseLine_hostPort_def isInternalURL_def invalidHost_def HasPrefix_def exampleLib_def)

lemma example_parseLine:
  "parseLine exampleLib getDefaultConfig exampleLine newStats = Inr exampleStats"
  by (simp add: parseLine_def example_fields example_hostPort parseLine_global_def
        updateDomainStats_def updateDomainData_def newStats_def newDomainData_def
        exampleStats_def exampleData_def getDurationBucket_def incr_def incr2_def
        HasPrefix_def Let_def)

lemma example_scanLoop:
  "scanLoop exampleLib getDefaultConfig path env ino [exampleLine] (0, newStats, p)
     = Some (1, exampleStats, p)"
  by (simp add: example_parseLine)

text \<open>
  Claim C10.  One line adds one to \<open>Requests\<close> of its accumulator, one to \<open>CacheHits\<close>
  exactly when its cache status starts with \<open>TCP_HIT\<close> or \<open>TCP_MEM_HIT\<close>, one to
  \<open>CacheMisses\<close> exactly when it does not and starts with \<open>TCP_MISS\<close>, and nothing to
  either for any other status; the accumulator of the line's host and port is the old
  one (or a fresh one) updated so; and in every accumulator that the scanning loop of a
  run has built from empty statistics, hits plus misses are at most the requests.
\<close>

theorem C10_cache_counts:
  "Requests (updateDomainData b code cat dur status d) = Requests d + 1
   \<and> CacheHits (updateDomainData b code cat dur status d) =
       CacheHits d
         + (if HasPrefix status ''TCP_HIT'' \<or> HasPrefix status ''TCP_MEM_HIT'' then 1 else 0)
   \<and> CacheMisses (updateDomainData b code cat dur status d) =
       CacheMisses d
         + (if \<not> (HasPrefix status ''TCP_HIT'' \<or> HasPrefix status ''TCP_MEM_HIT'')
               \<and> HasPrefix status ''TCP_MISS'' then 1 else 0)
   \<and> lookupDomain (updateDomainStats s host port b code cat dur status) host port =
       Some (updateDomainData b code cat dur status
               (case lookupDomain s host port of None \<Rightarrow> newDomainData | Some d' \<Rightarrow> d'))
   \<and> (scanLoop lib cfg path env ino lines (0, newStats, p) = Some (n, stats, p')
        \<longrightarrow> statsInv stats)"
proof -
  have "scanLoop lib cfg path env ino lines (0, newStats, p) = Some (n, stats, p')
        \<longrightarrow> statsInv stats"
    using statsInv_scanLoop [OF statsInv_newStats] by blast
  then show ?thesis
    using updateDomainData_effect [of b code cat dur status d]
      lookup_updateDomainStats [of s host port b code cat dur status]
    by blast
qed

theorem C10_cache_counts_witness:
  "scanLoop exampleLib getDefaultConfig ''access.log''
       (exampleEnv \<lparr>FileInode = 7, Content = exampleLine\<rparr>) 7 [exampleLine]
       (0, newStats, NewParser (NewMetrics []) NotExist)
     = Some (1, exampleStats, NewParser (NewMetrics []) NotExist)
   \<and> statsInv exampleStats
   \<and> CacheHits exampleData + CacheMisses exampleData \<le> Requests exampleData"
proof -
  have run: "scanLoop exampleLib getDefaultConfig ''access.log''
       (exampleEnv \<lparr>FileInode = 7, Content = exampleLine\<rparr>) 7 [exampleLine]
       (0, newStats, NewParser (NewMetrics []) NotExist)
     = Some (1, exampleStats, NewParser (NewMetrics []) NotExist)"
    by (rule example_scanLoop)
  have "statsInv exampleStats"
    using C10_cache_counts [of 0 "''''" "''''" 0 "''''" newDomainData newStats "''''" "''''"
        exampleLib getDefaultConfig "''access.log''"
        "exampleEnv \<lparr>FileInode = 7, Content = exampleLine\<rparr>" 7 "[exampleLine]"
        "NewParser (NewMetrics []) NotExist" 1 exampleStats "NewParser (NewMetrics []) NotExist"]
      run by blast
  with run show ?thesis
    by (simp add: statsInv_def exampleStats_def cacheInv_def)
qed

section \<open>Host and port of a line\<close>

lemma Split_nonempty: "Split s c \<noteq> []"
  by (induction s) (auto split: list.splits)























section \<open>Rejected and degraded lines\<close>

lemma parseLine_fields_short:
  assumes "int (length (splitPreservingQuotes line)) \<le> minFields (Fields (LogFormat cfg))"
  shows "parseLine lib cfg line stats = Inl InvalidLogLine"
  using assms by (simp add: parseLine_def parseLine_fields_def Let_def)

lemma parseLine_fields_badCode:
  assumes "minFields (Fields (LogFormat cfg)) < int (length (splitPreservingQuotes line))"
    "GetField (LogFormat cfg) (splitPreservingQuotes line) ''duration'' = Some elapsed"
    "GetField (LogFormat cfg) (splitPreservingQuotes line) ''result_code'' = Some resultCode"
    "GetField (LogFormat cfg) (splitPreservingQuotes line) ''bytes'' = Some bytes"
    "GetField (LogFormat cfg) (splitPreservingQuotes line) ''method'' = Some meth"
    "GetField (LogFormat cfg) (splitPreservingQuotes line) ''url'' = Some url"
    "length (Split resultCode CHR ''/'') \<noteq> 2"
  shows "parseLine lib cfg line stats = Inl InvalidResultCode"
proof -
  have "parseLine_fields lib cfg line = Inl InvalidResultCode"
    using assms
    by (auto simp: parseLine_fields_def Let_def split: list.splits)
  then show ?thesis by (simp add: parseLine_def)
qed

lemma parseLine_fields_ok:
  assumes "minFields (Fields (LogFormat cfg)) < int (length (splitPreservingQuotes line))"
    "GetField (LogFormat cfg) (splitPreservingQuotes line) ''duration'' = Some elapsed"
    "GetField (LogFormat cfg) (splitPreservingQuotes line) ''result_code'' = Some resultCode"
    "GetField (LogFormat cfg) (splitPreservingQuotes line) ''bytes'' = Some bytes"
    "GetField (LogFormat cfg) (splitPreservingQuotes line) ''method'' = Some meth"
    "GetField (LogFormat cfg) (splitPreservingQuotes line) ''url'' = Some url"
    "length (Split resultCode CHR ''/'') = 2"
  shows "\<exists>e. parseLine_fields lib cfg line = Inr e
           \<and> (ParseFloat lib elapsed = None \<longrightarrow> durationSeconds e = 0)
           \<and> (ParseInt bytes = None \<longrightarrow> bytesInt e = 0)
           \<and> (\<exists>stats'. parseLine lib cfg line stats = Inr stats')"
proof -
  from assms(7) obtain cs hc where sp: "Split resultCode CHR ''/'' = [cs, hc]"
    by (cases "Split resultCode CHR ''/''" rule: list.exhaust)
       (auto simp: length_Suc_conv)
  show ?thesis
    using assms(1-6) sp
    by (auto simp: parseLine_def parseLine_fields_def Let_def split: option.splits prod.splits)
qed

lemma scanLoop_skip:
  assumes "parseLine lib cfg line stats = Inl InvalidLogLine
           \<or> parseLine lib cfg line stats = Inl InvalidResultCode"
  shows "scanLoop lib cfg path env ino (line # rest) (n, stats, p)
           = scanLoop lib cfg path env ino rest (n, stats, p)"
  using assms by auto

lemma short_split:
  "splitPreservingQuotes shortLine = [''1700000000.000'', ''150'', ''10.0.0.1'']"
  by (simp add: splitPreservingQuotes_def shortLine_def)

lemma badCode_split:
  "splitPreservingQuotes badCodeLine =
     [''1700000000.000'', ''150'', ''10.0.0.1'', ''TCP_MISS'', ''1024'', ''GET'',
      ''http://example.com/'', ''-'', ''HIER_DIRECT/1.2.3.4'', ''text/html'']"
  by (simp add: splitPreservingQuotes_def badCodeLine_def)

lemma degraded_split:
  "splitPreservingQuotes degradedLine =
     [''1700000000.000'', ''-'', ''10.0.0.1'', ''TCP_MISS/200'', ''-'', ''GET'',
      ''http://example.com/'', ''-'', ''HIER_DIRECT/1.2.3.4'', ''text/html'']"
  by (simp add: splitPreservingQuotes_def degradedLine_def)

lemma default_minFields: "minFields (Fields (LogFormat getDefaultConfig)) = 9"
  by (simp add: getDefaultConfig_def squid_native_def minFields_def)

text \<open>
  Claim C8.  A line with no more tokens than the highest configured field index is
  rejected with the error of an invalid log line, and the scanning loop goes on with the
  next line, the line count and the statistics unchanged.  When the line has enough
  tokens and every configured index is usable: a result code that does not split at
  \<open>/\<close> into exactly two parts is rejected with the error of an invalid result code and
  skipped in the same way; otherwise the line is accepted, with duration 0 when
  \<open>ParseFloat\<close> fails on the duration field and with byte count 0 when \<open>ParseInt\<close> fails
  on the bytes field.
\<close>

theorem C8_parse_errors:
  "(int (length (splitPreservingQuotes line)) \<le> minFields (Fields (LogFormat cfg)) \<longrightarrow>
      parseLine lib cfg line stats = Inl InvalidLogLine
      \<and> scanLoop lib cfg path env ino (line # rest) (n, stats, p)
          = scanLoop lib cfg path env ino rest (n, stats, p))
   \<and> (minFields (Fields (LogFormat cfg)) < int (length (splitPreservingQuotes line))
      \<and> GetField (LogFormat cfg) (splitPreservingQuotes line) ''duration'' = Some elapsed
      \<and> GetField (LogFormat cfg) (splitPreservingQuotes line) ''result_code'' = Some resultCode
      \<and> GetField (LogFormat cfg) (splitPreservingQuotes line) ''bytes'' = Some bytes
      \<and> GetField (LogFormat cfg) (splitPreservingQuotes line) ''method'' = Some meth
      \<and> GetField (LogFormat cfg) (splitPreservingQuotes line) ''url'' = Some url
      \<longrightarrow>
        (length (Split resultCode CHR ''/'') \<noteq> 2 \<longrightarrow>
           parseLine lib cfg line stats = Inl InvalidResultCode
           \<and> scanLoop lib cfg path env ino (line # rest) (n, stats, p)
               = scanLoop lib cfg path env ino rest (n, stats, p))
        \<and> (length (Split resultCode CHR ''/'') = 2 \<longrightarrow>
             (\<exists>e. parseLine_fields lib cfg line = Inr e
                \<and> (ParseFloat lib elapsed = None \<longrightarrow> durationSeconds e = 0)
                \<and> (ParseInt bytes = None \<longrightarrow> bytesInt e = 0)
                \<and> (\<exists>stats'. parseLine lib cfg line stats = Inr stats'))))"
proof -
  have a: "int (length (splitPreservingQuotes line)) \<le> minFields (Fields (LogFormat cfg)) \<longrightarrow>
      parseLine lib cfg line stats = Inl InvalidLogLine
      \<and> scanLoop lib cfg path env ino (line # rest) (n, stats, p)
          = scanLoop lib cfg path env ino rest (n, stats, p)"
    using parseLine_fields_short [of line cfg lib stats]
      scanLoop_skip [of lib cfg line stats path env ino rest n p] by blast
  show ?thesis
    using a parseLine_fields_badCode [of cfg line elapsed resultCode bytes meth url lib stats]
      parseLine_fields_ok [of cfg line elapsed resultCode bytes meth url lib stats]
      scanLoop_skip [of lib cfg line stats path env ino rest n p]
    by blast
qed

theorem C8_parse_errors_witness:
  "parseLine exampleLib getDefaultConfig shortLine newStats = Inl InvalidLogLine
   \<and> scanLoop exampleLib getDefaultConfig ''access.log'' (exampleEnv \<lparr>FileInode = 7, Content = []\<rparr>) 7
        [shortLine] (0, newStats, NewParser (NewMetrics []) NotExist)
       = Some (0, newStats, NewParser (NewMetrics []) NotExist)
   \<and> parseLine exampleLib getDefaultConfig badCodeLine newStats = Inl InvalidResultCode
   \<and> (\<exists>e. parseLine_fields exampleLib getDefaultConfig degradedLine = Inr e
          \<and> durationSeconds e = 0 \<and> bytesInt e = 0)"
proof -
  have g: "GetField (LogFormat getDefaultConfig) (splitPreservingQuotes badCodeLine) ''duration'' = Some ''150''"
      "GetField (LogFormat getDefaultConfig) (splitPreservingQuotes badCodeLine) ''result_code'' = Some ''TCP_MISS''"
      "GetField (LogFormat getDefaultConfig) (splitPreservingQuotes badCodeLine) ''bytes'' = Some ''1024''"
      "GetField (LogFormat getDefaultConfig) (splitPreservingQuotes badCodeLine) ''method'' = Some ''GET''"
      "GetField (LogFormat getDefaultConfig) (splitPreservingQuotes badCodeLine) ''url'' = Some ''http://example.com/''"
    by (simp_all add: badCode_split GetField_def getDefaultConfig_def squid_native_def)
  have h: "GetField (LogFormat getDefaultConfig) (splitPreservingQuotes degradedLine) ''duration'' = Some ''-''"
      "GetField (LogFormat getDefaultConfig) (splitPreservingQuotes degradedLine) ''result_code'' = Some ''TCP_MISS/200''"
      "GetField (LogFormat getDefaultConfig) (splitPreservingQuotes degradedLine) ''bytes'' = Some ''-''"
      "GetField (LogFormat getDefaultConfig) (splitPreservingQuotes degradedLine) ''method'' = Some ''GET''"
      "GetField (LogFormat getDefaultConfig) (splitPreservingQuotes degradedLine) ''url'' = Some ''http://example.com/''"
    by (simp_all add: degraded_split GetField_def getDefaultConfig_def squid_native_def)
  have l: "int (length (splitPreservingQuotes shortLine)) \<le> minFields (Fields (LogFormat getDefaultConfig))"
      "minFields (Fields (LogFormat getDefaultConfig)) < int (length (splitPreservingQuotes badCodeLine))"
      "minFields (Fields (LogFormat getDefaultConfig)) < int (length (splitPreservingQuotes degradedLine))"
    by (simp_all add: default_minFields short_split badCode_split degraded_split)
  have s: "length (Split ''TCP_MISS'' CHR ''/'') \<noteq> 2" "length (Split ''TCP_MISS/200'' CHR ''/'') = 2"
      "ParseFloat exampleLib ''-'' = None" "ParseInt ''-'' = None"
    by (simp_all add: exampleLib_def ParseInt_def)
  show ?thesis
    using C8_parse_errors [where line = shortLine and cfg = getDefaultConfig and lib = exampleLib
        and stats = newStats and path = "''access.log''"
        and env = "exampleEnv \<lparr>FileInode = 7, Content = []\<rparr>" and ino = 7 and rest = "[]"
        and n = 0 and p = "NewParser (NewMetrics []) NotExist"]
      C8_parse_errors [where line = badCodeLine and cfg = getDefaultConfig and lib = exampleLib
        and stats = newStats and elapsed = "''150''" and resultCode = "''TCP_MISS''"
        and bytes = "''1024''" and meth = "''GET''" and url = "''http://example.com/''"]
      C8_parse_errors [where line = degradedLine and cfg = getDefaultConfig and lib = exampleLib
        and stats = newStats and elapsed = "''-''" and resultCode = "''TCP_MISS/200''"
        and bytes = "''-''" and meth = "''GET''" and url = "''http://example.com/''"]
      g h l s
    by (simp del: scanLoop.simps(2)) blast
qed

section \<open>Properties of the percentile calculator\<close>

lemma go_int_nonneg: "0 \<le> x \<Longrightarrow> go_int x = \<lfloor>x\<rfloor>"
  by (simp add: go_int_def)

lemma calculatePercentile_nonneg:
  assumes "0 \<le> p" and "xs \<noteq> []"
  shows "calculatePercentile xs p
           = Some (sort xs ! min (nat \<lfloor>real (length xs) * p\<rfloor>) (length xs - 1))"
proof -
  let ?n = "length xs"
  have n: "0 < ?n" using assms(2) by simp
  have nn: "0 \<le> real ?n * p" using assms(1) by simp
  then have fl: "0 \<le> \<lfloor>real ?n * p\<rfloor>" by simp
  show ?thesis
  proof (cases "\<lfloor>real ?n * p\<rfloor> \<ge> int ?n")
    case True
    then have "min (nat \<lfloor>real ?n * p\<rfloor>) (?n - 1) = ?n - 1" by linarith
    moreover have "nat (int ?n - 1) = ?n - 1" using n by linarith
    ultimately show ?thesis
      using True n nn assms(2) by (simp add: calculatePercentile_def go_int_nonneg Let_def)
  next
    case False
    then have "min (nat \<lfloor>real ?n * p\<rfloor>) (?n - 1) = nat \<lfloor>real ?n * p\<rfloor>"
      using fl by linarith
    then show ?thesis
      using False fl nn assms(2) by (simp add: calculatePercentile_def go_int_nonneg Let_def)
  qed
qed

lemma calculatePercentile_total: "0 \<le> p \<Longrightarrow> calculatePercentile xs p \<noteq> None"
proof (cases "xs = []")
  case True
  then show ?thesis by (simp add: calculatePercentile_def)
next
  case False
  assume "0 \<le> p"
  from calculatePercentile_nonneg [OF this False] show ?thesis by simp
qed

lemma calculatePercentile_mset:
  assumes "mset xs = mset ys"
  shows "calculatePercentile xs p = calculatePercentile ys p"
proof -
  have "sort xs = sort ys"
    using assms by (intro properties_for_sort) simp_all
  moreover have "length xs = length ys"
    using assms by (rule mset_eq_length)
  ultimately show ?thesis
    by (simp add: calculatePercentile_def)
qed

text \<open>
  Claim C7.  The percentile of the empty sample is 0; for a non-empty sample and
  \<open>p\<close> one of 0.50, 0.90, 0.95, 0.99 the result is the element of the ascending-sorted
  copy at index \<open>floor (n * p)\<close>, clamped to \<open>n - 1\<close>; \<open>percentile [5] 0.99 = 5\<close>; and
  two samples that are permutations of each other have the same percentile.
\<close>

theorem C7_percentile:
  "calculatePercentile [] p = Some 0
   \<and> (xs \<noteq> [] \<and> p \<in> {50 / 100, 90 / 100, 95 / 100, 99 / 100} \<longrightarrow>
        calculatePercentile xs p
          = Some (sort xs ! min (nat \<lfloor>real (length xs) * p\<rfloor>) (length xs - 1)))
   \<and> calculatePercentile [5] (99 / 100) = Some 5
   \<and> (mset xs = mset ys \<longrightarrow> calculatePercentile xs p = calculatePercentile ys p)"
proof -
  have a: "calculatePercentile [] p = Some 0"
    by (simp add: calculatePercentile_def)
  have b: "xs \<noteq> [] \<and> p \<in> {50 / 100, 90 / 100, 95 / 100, 99 / 100} \<longrightarrow>
        calculatePercentile xs p
          = Some (sort xs ! min (nat \<lfloor>real (length xs) * p\<rfloor>) (length xs - 1))"
  proof
    assume h: "xs \<noteq> [] \<and> p \<in> {50 / 100, 90 / 100, 95 / 100, 99 / 100}"
    then have "0 \<le> p" by auto
    with h show "calculatePercentile xs p
          = Some (sort xs ! min (nat \<lfloor>real (length xs) * p\<rfloor>) (length xs - 1))"
      by (intro calculatePercentile_nonneg) simp_all
  qed
  have c: "calculatePercentile [5] (99 / 100) = Some 5"
    using calculatePercentile_nonneg [of "99 / 100" "[5]"] by simp
  have d: "mset xs = mset ys \<longrightarrow> calculatePercentile xs p = calculatePercentile ys p"
    using calculatePercentile_mset by blast
  from a b c d show ?thesis by blast
qed

theorem C7_percentile_witness:
  "[3, 1, 2] \<noteq> ([] :: real list)
   \<and> (50 / 100 :: real) \<in> {50 / 100, 90 / 100, 95 / 100, 99 / 100}
   \<and> mset [3, 1, 2 :: real] = mset [2, 3, 1]
   \<and> calculatePercentile [3, 1, 2] (50 / 100) = Some 2
   \<and> calculatePercentile [2, 3, 1] (50 / 100) = Some 2"
proof -
  have s1: "sort [3, 1, 2 :: real] = [1, 2, 3]" by simp
  have fl: "nat \<lfloor>real (length [3, 1, 2 :: real]) * (50 / 100)\<rfloor> = 1" by simp
  have m: "mset [3, 1, 2 :: real] = mset [2, 3, 1]" by simp
  have "calculatePercentile [3, 1, 2] (50 / 100)
          = Some (sort [3, 1, 2 :: real] ! min (nat \<lfloor>real (length [3, 1, 2 :: real]) * (50 / 100)\<rfloor>)
                (length [3, 1, 2 :: real] - 1))"
    using C7_percentile [of "50 / 100" "[3, 1, 2]" "[2, 3, 1]"] by blast
  then have v: "calculatePercentile [3, 1, 2] (50 / 100) = Some 2"
    unfolding s1 fl by simp
  have "calculatePercentile [3, 1, 2] (50 / 100) = calculatePercentile [2, 3, 1] (50 / 100)"
    using C7_percentile [of "50 / 100" "[3, 1, 2]" "[2, 3, 1]"] m by blast
  with v m show ?thesis by simp
qed

end
